theory Spec2Isabelle
  imports Complex_Main "HOL-Library.AList" "HOL-Library.Sublist"
begin

section \<open>Python values, dictionaries and exceptions\<close>

text \<open>
  The workers exchange JSON: job payloads, Firestore documents and the parsed output of
  the language model are all Python values built from \<open>None\<close>, booleans, integers,
  strings, lists and dictionaries. A dictionary is an association list in insertion
  order, read with \<open>map_of\<close> and written with \<open>AList.update\<close>, which replaces the
  value of an existing key in place and appends a new key, as Python does.
  Python floats are carried as rationals (the code below only compares them and adds
  one to them), and \<open>datetime\<close> values, which Firestore returns for its timestamp
  fields, as the rational reading of a clock. Strings are ASCII.
\<close>

datatype json =
    JNull
  | JBool bool
  | JInt int
  | JFloat rat
  | JTime rat
  | JStr string
  | JArr "json list"
  | JObj "(string \<times> json) list"

type_synonym dict = "(string \<times> json) list"

datatype py_error =
    AttributeError
  | KeyError
  | TypeError
  | ValueError
  | JSONDecodeError
  | NotFound
  | GenerationError

text \<open>\<open>d.get(k, default)\<close> on a dictionary.\<close>

definition dict_get :: "dict \<Rightarrow> string \<Rightarrow> json \<Rightarrow> json" where
  "dict_get d k dflt = (case map_of d k of Some v \<Rightarrow> v | None \<Rightarrow> dflt)"

text \<open>\<open>x.get(k, default)\<close> on any value: only a dictionary has the method.\<close>

definition attr_get :: "json \<Rightarrow> string \<Rightarrow> json \<Rightarrow> py_error + json" where
  "attr_get x k dflt = (case x of JObj d \<Rightarrow> Inr (dict_get d k dflt) | _ \<Rightarrow> Inl AttributeError)"

text \<open>\<open>d[k]\<close> on a dictionary.\<close>

definition dict_item :: "dict \<Rightarrow> string \<Rightarrow> py_error + json" where
  "dict_item d k = (case map_of d k of Some v \<Rightarrow> Inr v | None \<Rightarrow> Inl KeyError)"


text \<open>Truth value of a Python value, as \<open>if x:\<close> and \<open>if not x:\<close> test it.\<close>

fun truthy :: "json \<Rightarrow> bool" where
  "truthy JNull = False"
| "truthy (JBool b) = b"
| "truthy (JInt n) = (n \<noteq> 0)"
| "truthy (JFloat r) = (r \<noteq> 0)"
| "truthy (JTime t) = True"
| "truthy (JStr s) = (s \<noteq> [])"
| "truthy (JArr xs) = (xs \<noteq> [])"
| "truthy (JObj d) = (d \<noteq> [])"

text \<open>Iteration (\<open>for x in v\<close>): a list yields its elements, a string its characters, a
  dictionary its keys; nothing else is iterable.\<close>

definition py_iter :: "json \<Rightarrow> py_error + json list" where
  "py_iter v =
    (case v of
       JArr xs \<Rightarrow> Inr xs
     | JStr s \<Rightarrow> Inr (map (\<lambda>c. JStr [c]) s)
     | JObj d \<Rightarrow> Inr (map (\<lambda>kv. JStr (fst kv)) d)
     | _ \<Rightarrow> Inl TypeError)"

text \<open>Numeric value of a number (\<open>True\<close> is 1, \<open>False\<close> is 0); other values do not
  compare with, or add to, an integer.\<close>

definition as_num :: "json \<Rightarrow> py_error + rat" where
  "as_num v =
    (case v of
       JInt n \<Rightarrow> Inr (of_int n)
     | JBool b \<Rightarrow> Inr (if b then 1 else 0)
     | JFloat r \<Rightarrow> Inr r
     | _ \<Rightarrow> Inl TypeError)"

text \<open>\<open>v < k\<close> and \<open>v >= k\<close> against an integer constant.\<close>

definition py_lt :: "json \<Rightarrow> int \<Rightarrow> py_error + bool" where
  "py_lt v k = (case as_num v of Inl e \<Rightarrow> Inl e | Inr r \<Rightarrow> Inr (r < of_int k))"

definition py_ge :: "json \<Rightarrow> int \<Rightarrow> py_error + bool" where
  "py_ge v k = (case as_num v of Inl e \<Rightarrow> Inl e | Inr r \<Rightarrow> Inr (of_int k \<le> r))"

text \<open>\<open>v + 1\<close>: an integer (or boolean) gives an integer, a float a float.\<close>

definition py_add1 :: "json \<Rightarrow> py_error + json" where
  "py_add1 v =
    (case v of
       JInt n \<Rightarrow> Inr (JInt (n + 1))
     | JBool b \<Rightarrow> Inr (JInt ((if b then 1 else 0) + 1))
     | JFloat r \<Rightarrow> Inr (JFloat (r + 1))
     | _ \<Rightarrow> Inl TypeError)"

text \<open>\<open>json.dumps\<close> accepts every value but a \<open>datetime\<close>.\<close>

primrec serializable :: "json \<Rightarrow> bool" where
  "serializable JNull = True"
| "serializable (JBool b) = True"
| "serializable (JInt n) = True"
| "serializable (JFloat r) = True"
| "serializable (JTime t) = False"
| "serializable (JStr s) = True"
| "serializable (JArr xs) = list_all id (map serializable xs)"
| "serializable (JObj d) = list_all snd (map (map_prod id serializable) d)"

subsection \<open>Strings\<close>

definition lower_letters :: string where
  "lower_letters = ''abcdefghijklmnopqrstuvwxyz''"

definition upper_letters :: string where
  "upper_letters = ''ABCDEFGHIJKLMNOPQRSTUVWXYZ''"

definition upper_char :: "char \<Rightarrow> char" where
  "upper_char c = (case map_of (zip lower_letters upper_letters) c of Some u \<Rightarrow> u | None \<Rightarrow> c)"

definition lower_char :: "char \<Rightarrow> char" where
  "lower_char c = (case map_of (zip upper_letters lower_letters) c of Some l \<Rightarrow> l | None \<Rightarrow> c)"

definition upper :: "string \<Rightarrow> string" where
  "upper s = map upper_char s"

definition lower :: "string \<Rightarrow> string" where
  "lower s = map lower_char s"

text \<open>\<open>v.upper()\<close> and \<open>v.lower()\<close>: only strings have the methods.\<close>

definition str_upper :: "json \<Rightarrow> py_error + string" where
  "str_upper v = (case v of JStr s \<Rightarrow> Inr (upper s) | _ \<Rightarrow> Inl AttributeError)"

definition str_lower :: "json \<Rightarrow> py_error + string" where
  "str_lower v = (case v of JStr s \<Rightarrow> Inr (lower s) | _ \<Rightarrow> Inl AttributeError)"

text \<open>\<open>v[:n]\<close>: strings and lists can be sliced, other values raise.\<close>

definition slice_ok :: "json \<Rightarrow> py_error + unit" where
  "slice_ok v = (case v of JStr s \<Rightarrow> Inr () | JArr xs \<Rightarrow> Inr () | _ \<Rightarrow> Inl TypeError)"

text \<open>\<open>s.replace(old, new)\<close> for a non-empty \<open>old\<close>: occurrences are replaced from the
  left and do not overlap.\<close>

function py_replace :: "string \<Rightarrow> string \<Rightarrow> string \<Rightarrow> string" where
  "py_replace old new [] = []"
| "py_replace old new (c # cs) =
    (if old \<noteq> [] \<and> prefix old (c # cs)
     then new @ py_replace old new (drop (length old) (c # cs))
     else c # py_replace old new cs)"
  by pat_completeness auto
termination
  by (relation "measure (\<lambda>(old, new, s). length s)") auto

definition is_space :: "char \<Rightarrow> bool" where
  "is_space c = (c \<in> set [CHR 0x20, CHR 0x09, CHR 0x0A, CHR 0x0B, CHR 0x0C, CHR 0x0D,
                           CHR 0x1C, CHR 0x1D, CHR 0x1E, CHR 0x1F])"

definition py_strip :: "string \<Rightarrow> string" where
  "py_strip s = rev (dropWhile is_space (rev (dropWhile is_space s)))"

text \<open>\<open>s.split(sep)[0]\<close>: the part of \<open>s\<close> before the first occurrence of \<open>sep\<close>,
  all of \<open>s\<close> when there is none.\<close>

fun split_head :: "string \<Rightarrow> string \<Rightarrow> string" where
  "split_head sep [] = []"
| "split_head sep (c # cs) = (if prefix sep (c # cs) then [] else c # split_head sep cs)"

text \<open>\<open>str(n)\<close> for an integer.\<close>

definition digit_char :: "nat \<Rightarrow> char" where
  "digit_char n = ''0123456789'' ! (n mod 10)"

function string_of_nat :: "nat \<Rightarrow> string" where
  "string_of_nat n =
    (if n < 10 then [digit_char n] else string_of_nat (n div 10) @ [digit_char (n mod 10)])"
  by pat_completeness auto
termination
  by (relation "measure id") auto

definition str_int :: "int \<Rightarrow> string" where
  "str_int i = (if i < 0 then CHR ''-'' # string_of_nat (nat (- i)) else string_of_nat (nat i))"

text \<open>A value interpolated into an f-string. Strings, integers, booleans and \<open>None\<close>
  print as Python prints them; the rendering of every other value (the \<open>repr\<close> of
  a list or a dictionary, the digits of a float) is the parameter \<open>str_of\<close>.\<close>

definition fmt :: "(json \<Rightarrow> string) \<Rightarrow> json \<Rightarrow> string" where
  "fmt str_of v =
    (case v of
       JStr s \<Rightarrow> s
     | JInt n \<Rightarrow> str_int n
     | JBool b \<Rightarrow> (if b then ''True'' else ''False'')
     | JNull \<Rightarrow> ''None''
     | _ \<Rightarrow> str_of v)"

section \<open>The document store (\<open>src/core/db.py\<close>)\<close>

text \<open>
  Firestore is an external collaborator. Its three collections are association lists
  from document names to documents (dictionaries). A document reference built from
  \<open>None\<close> gets a fresh automatic name, so no document exists under it; a reference built
  from a value that is neither a string nor \<open>None\<close> raises. \<open>set\<close> replaces a
  document, \<open>update\<close> raises \<open>NotFound\<close> when the document does not exist.
\<close>

record store =
  agents :: "(string \<times> dict) list"
  pointers :: "(string \<times> dict) list"
  chats :: "(string \<times> dict) list"

definition COL_ROUTER :: string where "COL_ROUTER = ''pointers''"
definition COL_AGENTS :: string where "COL_AGENTS = ''agents''"
definition COL_CHATS :: string where "COL_CHATS = ''chats''"

text \<open>\<open>db.collection(c).document(name).get()\<close>: \<open>None\<close> stands for a snapshot whose
  \<open>exists\<close> is false.\<close>

definition document :: "(string \<times> dict) list \<Rightarrow> json \<Rightarrow> py_error + dict option" where
  "document coll name =
    (case name of
       JStr s \<Rightarrow> Inr (map_of coll s)
     | JNull \<Rightarrow> Inr None
     | _ \<Rightarrow> Inl TypeError)"

text \<open>\<open>db.collection(c).document(name).update(fields)\<close> for top-level fields.\<close>

definition dict_update :: "dict \<Rightarrow> dict \<Rightarrow> dict" where
  "dict_update d other = fold (\<lambda>kv. AList.update (fst kv) (snd kv)) other d"

definition doc_update ::
  "(string \<times> dict) list \<Rightarrow> json \<Rightarrow> dict \<Rightarrow> py_error + (string \<times> dict) list" where
  "doc_update coll name upd =
    (case document coll name of
       Inl e \<Rightarrow> Inl e
     | Inr None \<Rightarrow> Inl NotFound
     | Inr (Some d) \<Rightarrow>
        (case name of
           JStr s \<Rightarrow> Inr (AList.update s (dict_update d upd) coll)
         | _ \<Rightarrow> Inl NotFound))"

definition get_current_agent_config :: "store \<Rightarrow> json \<Rightarrow> py_error + dict" where
  "get_current_agent_config st agent_id =
    (case document (pointers st) agent_id of
       Inl e \<Rightarrow> Inl e
     | Inr None \<Rightarrow> Inl ValueError
     | Inr (Some pointer_doc) \<Rightarrow>
        (case dict_item pointer_doc ''active_agent_doc_ref'' of
           Inl e \<Rightarrow> Inl e
         | Inr active_doc_ref \<Rightarrow>
            (case document (agents st) active_doc_ref of
               Inl e \<Rightarrow> Inl e
             | Inr None \<Rightarrow> Inl ValueError
             | Inr (Some agent_doc) \<Rightarrow> Inr agent_doc)))"





section \<open>The generation client (\<open>src/core/llm.py\<close>)\<close>

text \<open>
  The model call is external: \<open>api_response\<close> is what \<open>model.generate_content\<close>
  returned, its text and, when the usage metadata can be read, the two token counts
  the API reports. \<open>elapsed\<close> is the difference of the two clock readings, in seconds.
  Money and time are floats in the source and exact rationals here.
\<close>

record api_response =
  response_text :: string
  usage_metadata :: "(nat \<times> nat) option"

record llm_metrics =
  latency_ms :: rat
  input_tokens :: nat
  output_tokens :: nat
  total_tokens :: nat
  estimated_cost :: rat
  model_used :: string

record llm_result =
  result_text :: string
  result_metrics :: llm_metrics

text \<open>\<open>round(x, n)\<close>: to \<open>n\<close> decimal places, a tie to the even neighbour.\<close>

definition py_round :: "rat \<Rightarrow> nat \<Rightarrow> rat" where
  "py_round x n =
    (let y = x * 10 ^ n;
         f = \<lfloor>y\<rfloor>;
         r = y - of_int f
     in of_int (if r < 1 / 2 then f
                else if 1 / 2 < r then f + 1
                else if even f then f else f + 1) / 10 ^ n)"

definition INPUT_PRICE_PER_1M :: rat where
  "INPUT_PRICE_PER_1M = 30 / 100"

definition OUTPUT_PRICE_PER_1M :: rat where
  "OUTPUT_PRICE_PER_1M = 250 / 100"

definition generate_response ::
  "api_response \<Rightarrow> rat \<Rightarrow> string \<Rightarrow> string \<Rightarrow> string \<Rightarrow> llm_result" where
  "generate_response response elapsed user_input system_prompt model_name =
    (let latency = elapsed * 1000;
         tokens = (case usage_metadata response of
                     Some usage \<Rightarrow> usage
                   | None \<Rightarrow> ((length system_prompt + length user_input) div 4,
                              length (response_text response) div 4));
         input_cost = (of_nat (fst tokens) / 1000000) * INPUT_PRICE_PER_1M;
         output_cost = (of_nat (snd tokens) / 1000000) * OUTPUT_PRICE_PER_1M;
         total_cost = input_cost + output_cost
     in \<lparr>result_text = response_text response,
         result_metrics =
           \<lparr>latency_ms = py_round latency 2,
            input_tokens = fst tokens,
            output_tokens = snd tokens,
            total_tokens = fst tokens + snd tokens,
            estimated_cost = py_round total_cost 6,
            model_used = model_name\<rparr>\<rparr>)"


section \<open>Effects, the event bus and the environment\<close>

text \<open>
  What a stage does besides returning is recorded, in order, as a list of effects: a
  log line (chat id, component, level and the fixed stem of the message; \<open>LogWith\<close>
  carries the metadata dictionary too), a publish on a topic, a background task of the
  gateway that will publish, a statsd metric (by name), a statsd event (title and alert
  type) and the writes to the store. The statsd and logging calls are taken to succeed.

  A stage returns the exception that left it (\<open>None\<close> when it returned normally: the
  subscriber then acknowledges the message, and otherwise it does not), the store and
  the effects.
\<close>

datatype effect =
    Log json string string string
  | LogWith json string string string dict
  | Publish string dict
  | Enqueue string dict
  | Metric string
  | Event string string
  | DbSet string string dict
  | DbUpdate string json dict

type_synonym run = "py_error option \<times> store \<times> effect list"

definition TOPIC_REFINE :: string where "TOPIC_REFINE = ''autonomic-refine-jobs''"
definition TOPIC_EVALUATE :: string where "TOPIC_EVALUATE = ''autonomic-eval-jobs''"

text \<open>\<open>publish_background_event\<close> serialises the payload with \<open>json.dumps\<close> and
  publishes it; the transport is taken to deliver.\<close>

definition publish_background_event :: "string \<Rightarrow> dict \<Rightarrow> py_error + effect" where
  "publish_background_event topic_name payload =
    (if serializable (JObj payload) then Inr (Publish topic_name payload) else Inl TypeError)"

text \<open>
  The environment of a worker: \<open>loads\<close> is \<open>json.loads\<close> (\<open>None\<close> when it raises
  \<open>JSONDecodeError\<close>), \<open>str_of\<close> renders a value inside an f-string, \<open>clock\<close> is the
  reading of \<open>time.time()\<close> and \<open>datetime.utcnow()\<close>, and \<open>storable\<close> says whether
  Firestore accepts a dictionary as document data (a write of any other raises).
  The prompts a worker sends to the model are not built here: the model is opaque, and
  each call is represented by its outcome, the result of \<open>generate_response\<close> or the
  exception it raised. What is kept of a prompt's construction is every operation in it
  that can raise.
\<close>

record env =
  loads :: "string \<Rightarrow> json option"
  str_of :: "json \<Rightarrow> string"
  clock :: rat
  storable :: "dict \<Rightarrow> bool"

definition fence :: string where
  "fence = [CHR 0x60, CHR 0x60, CHR 0x60]"

text \<open>\<open>text.replace("```json", "").replace("```", "").strip()\<close>\<close>

definition clean_json_text :: "string \<Rightarrow> string" where
  "clean_json_text s = py_strip (py_replace fence [] (py_replace (fence @ ''json'') [] s))"

section \<open>The Refiner (\<open>src/services/refiner_worker.py\<close>)\<close>

text \<open>The four mutable fields read from the prompt configuration, for the model.\<close>

definition mutable_context :: "json \<Rightarrow> py_error + dict" where
  "mutable_context prompt_config =
    (case prompt_config of
       JObj p \<Rightarrow>
         Inr [(''persona'', dict_get p ''persona'' JNull),
              (''style_guide'', dict_get p ''style_guide'' JNull),
              (''objectives'', dict_get p ''objectives'' JNull),
              (''operational_guidelines'', dict_get p ''operational_guidelines'' JNull)]
     | _ \<Rightarrow> Inl AttributeError)"

text \<open>
  \<open>d.update(x)\<close>: a dictionary \<open>x\<close> is merged key by key; any other iterable must
  yield items that are themselves iterables of exactly two elements, key and value.
  A key that is not a string is refused here; in the source it is the store that
  refuses it, when the document is written.
\<close>

definition update_pair :: "json \<Rightarrow> (string \<times> json) option" where
  "update_pair item =
    (case py_iter item of
       Inr [JStr k, v] \<Rightarrow> Some (k, v)
     | _ \<Rightarrow> None)"

definition dict_update_any :: "dict \<Rightarrow> json \<Rightarrow> py_error + dict" where
  "dict_update_any d x =
    (case x of
       JObj other \<Rightarrow> Inr (dict_update d other)
     | _ \<Rightarrow>
        (case py_iter x of
           Inl e \<Rightarrow> Inl e
         | Inr items \<Rightarrow>
            if list_all (\<lambda>i. update_pair i \<noteq> None) items
            then Inr (dict_update d (map (\<lambda>i. the (update_pair i)) items))
            else Inl ValueError))"

text \<open>Step 4 of \<open>refine_agent\<close>: the identifier, base, version and data of the new
  candidate, built from the parent document \<open>agent_data\<close>.\<close>

definition new_candidate ::
  "env \<Rightarrow> dict \<Rightarrow> json \<Rightarrow> json \<Rightarrow> json \<Rightarrow> py_error + (string \<times> string \<times> json \<times> dict)" where
  "new_candidate ev agent_data agent_id failure_reason new_mutable_config =
    (case py_add1 (dict_get agent_data ''version'' (JInt 1)) of
       Inl e \<Rightarrow> Inl e
     | Inr new_version \<Rightarrow>
        (case agent_id of
           JStr aid \<Rightarrow>
            (let base_id = split_head ''_v'' aid;
                 new_agent_id = base_id @ ''_v'' @ fmt (str_of ev) new_version;
                 d1 = AList.update ''created_at'' (JTime (clock ev))
                        (AList.update ''agent_id'' (JStr new_agent_id)
                          (AList.update ''version'' new_version agent_data))
             in case dict_item d1 ''metadata'' of
                  Inl e \<Rightarrow> Inl e
                | Inr (JObj m) \<Rightarrow>
                   (let m' = AList.update ''deployment_state'' (JStr ''TEST_CANDIDATE'')
                               (AList.update ''upgrade_reason''
                                  (JStr (''Refinement fix for: '' @ fmt (str_of ev) failure_reason))
                                  (AList.update ''agentid'' (JStr new_agent_id)
                                    (AList.update ''version'' new_version m)));
                        d2 = AList.update ''metadata'' (JObj m') d1
                    in case dict_item d2 ''prompt'' of
                         Inl e \<Rightarrow> Inl e
                       | Inr (JObj p) \<Rightarrow>
                          (case dict_update_any p new_mutable_config of
                             Inl e \<Rightarrow> Inl e
                           | Inr p' \<Rightarrow>
                              Inr (new_agent_id, base_id, new_version,
                                   AList.update ''prompt'' (JObj p') d2))
                       | Inr _ \<Rightarrow> Inl AttributeError)
                | Inr _ \<Rightarrow> Inl TypeError)
         | _ \<Rightarrow> Inl AttributeError))"

text \<open>The body of the \<open>try\<close> block: \<open>Some e\<close> is the exception that left it.\<close>

definition refine_try ::
  "env \<Rightarrow> store \<Rightarrow> json \<Rightarrow> json \<Rightarrow> json \<Rightarrow> json \<Rightarrow> py_error + llm_result \<Rightarrow> run" where
  "refine_try ev st chat_id agent_id failure_reason refinement_depth llm =
    (case document (agents st) agent_id of
       Inl e \<Rightarrow> (Some e, st, [])
     | Inr None \<Rightarrow> (None, st, [Log chat_id ''REFINER'' ''ERROR'' ''Agent doc not found''])
     | Inr (Some agent_data) \<Rightarrow>
        (case mutable_context (dict_get agent_data ''prompt'' (JObj [])) of
           Inl e \<Rightarrow> (Some e, st, [])
         | Inr context \<Rightarrow>
            if \<not> serializable (JObj context) then (Some TypeError, st, [])
            else
              (let asking = [Log chat_id ''REFINER'' ''INFO'' ''Asking LLM to fix the prompt...'']
               in case llm of
                    Inl e \<Rightarrow> (Some e, st, asking)
                  | Inr llm_result \<Rightarrow>
                     (case loads ev (py_strip (py_replace fence []
                                       (py_replace (fence @ ''json'') []
                                         (py_replace (fence @ fence) [] (result_text llm_result))))) of
                        None \<Rightarrow>
                          (None, st, asking @
                             [Log chat_id ''REFINER'' ''ERROR'' ''LLM generated invalid JSON. Aborting.''])
                      | Some new_mutable_config \<Rightarrow>
                         (case new_candidate ev agent_data agent_id failure_reason new_mutable_config of
                            Inl e \<Rightarrow> (Some e, st, asking)
                          | Inr (new_agent_id, base_id, new_version, new_agent_data) \<Rightarrow>
                             (let saving = asking @ [Log chat_id ''REFINER'' ''INFO'' ''Saving candidate'']
                              in if \<not> storable ev new_agent_data then (Some ValueError, st, saving)
                                 else
                                   (let st' = st\<lparr>agents := AList.update new_agent_id new_agent_data (agents st)\<rparr>;
                                        saved = saving @ [DbSet COL_AGENTS new_agent_id new_agent_data,
                                                          Metric ''autonomic.backend.cost''];
                                        evaluator_payload =
                                          [(''target_agent_id'', JStr new_agent_id),
                                           (''original_agent_id'', JStr base_id),
                                           (''chat_id'', chat_id),
                                           (''trigger_reason'', failure_reason),
                                           (''refinement_depth'', refinement_depth),
                                           (''version'', new_version)]
                                    in case publish_background_event TOPIC_EVALUATE evaluator_payload of
                                         Inl e \<Rightarrow> (Some e, st', saved)
                                       | Inr published \<Rightarrow>
                                          (None, st', saved @
                                             [published,
                                              Event ''Refiner: Fix Applied'' ''info'',
                                              Log chat_id ''REFINER'' ''SUCCESS''
                                                ''Refinement Complete. Sent to Evaluator.'']))))))))"

definition refine_agent :: "env \<Rightarrow> store \<Rightarrow> dict \<Rightarrow> py_error + llm_result \<Rightarrow> run" where
  "refine_agent ev st payload llm =
    (let chat_id = dict_get payload ''chat_id'' JNull;
         agent_id = dict_get payload ''agent_id'' JNull;
         failure_reason = dict_get payload ''failure_reason'' JNull;
         refinement_depth = dict_get payload ''refinement_depth'' (JInt 0)
     in case py_ge refinement_depth 2 of
          Inl e \<Rightarrow> (Some e, st, [])
        | Inr True \<Rightarrow>
           (None, st,
            [LogWith chat_id ''REFINER'' ''CRITICAL''
               ''STOPPING: Refinement loop detected. Agent failed optimization twice.''
               [(''action'', JStr ''email_alert''),
                (''recipient'', JStr ''admin@user.com''),
                (''reason'', JStr ''Automatic fix failed to resolve issue.'')]])
        | Inr False \<Rightarrow>
           (let starting = Log chat_id ''REFINER'' ''INFO'' ''Starting refinement''
            in case refine_try ev st chat_id agent_id failure_reason refinement_depth llm of
                 (None, st', effs) \<Rightarrow> (None, st', starting # effs)
               | (Some e, st', effs) \<Rightarrow>
                  (None, st', starting # effs @
                     [Log chat_id ''REFINER'' ''ERROR'' ''Error during refinement''])))"

section \<open>The Evaluator (\<open>src/services/evaluator_worker.py\<close>)\<close>

text \<open>\<open>handle_failure\<close> decides between a retry and an alert. It runs inside the
  \<open>try\<close> block of \<open>run_evaluation\<close>; \<open>Some e\<close> is the exception that left it.\<close>

definition handle_failure ::
  "json \<Rightarrow> json \<Rightarrow> json \<Rightarrow> string \<Rightarrow> json \<Rightarrow> py_error option \<times> effect list" where
  "handle_failure chat_id agent_id depth evaluator_reason audit_reason =
    (let rejected = Log chat_id ''EVALUATOR'' ''WARNING'' ''Candidate Rejected''
     in case py_lt depth 2 of
          Inl e \<Rightarrow> (Some e, [rejected])
        | Inr True \<Rightarrow>
           (case py_add1 depth of
              Inl e \<Rightarrow> (Some e, [rejected])
            | Inr depth1 \<Rightarrow>
               (let retry_payload =
                      [(''chat_id'', chat_id),
                       (''agent_id'', agent_id),
                       (''failure_reason'', JStr evaluator_reason),
                       (''refinement_depth'', depth1)]
                in case publish_background_event TOPIC_REFINE retry_payload of
                     Inl e \<Rightarrow> (Some e, [rejected])
                   | Inr published \<Rightarrow>
                      (None, [rejected, published,
                              Log chat_id ''EVALUATOR'' ''INFO'' ''Sent back to Refiner for retry.''])))
        | Inr False \<Rightarrow>
           (None,
            [rejected,
             Log chat_id ''EVALUATOR'' ''CRITICAL''
               ''OPTIMIZATION FAILED after 2 attempts. Manual Fix Required.'',
             Metric ''autonomic.optimization.failed'',
             Metric ''autonomic.optimization.failed'',
             Event ''Autonomic AI: Optimization Given Up'' ''error'']))"

text \<open>The loop over the chat history: the content of the last turn whose role is
  \<open>user\<close>. Every turn must be a dictionary whose role is a string.\<close>

fun scan_history :: "json \<Rightarrow> json list \<Rightarrow> py_error + json" where
  "scan_history last_user_input [] = Inr last_user_input"
| "scan_history last_user_input (turn # turns) =
    (case attr_get turn ''role'' JNull of
       Inl e \<Rightarrow> Inl e
     | Inr role \<Rightarrow>
        (case attr_get turn ''content'' JNull of
           Inl e \<Rightarrow> Inl e
         | Inr content \<Rightarrow>
            (case str_upper role of
               Inl e \<Rightarrow> Inl e
             | Inr u \<Rightarrow>
                scan_history (if role = JStr ''user'' then content else last_user_input) turns)))"

text \<open>The reads that build the candidate's system prompt.\<close>

definition candidate_system_prompt :: "json \<Rightarrow> py_error + unit" where
  "candidate_system_prompt candidate_prompt_config =
    (case attr_get candidate_prompt_config ''persona'' (JObj []) of
       Inl e \<Rightarrow> Inl e
     | Inr persona \<Rightarrow>
        (case attr_get persona ''role'' (JStr ''Agent'') of
           Inl e \<Rightarrow> Inl e
         | Inr role \<Rightarrow> Inr ()))"

text \<open>A judge's answer: the cleaned text parsed as JSON, and its verdict and reason
  read with \<open>get\<close>.\<close>

definition judge_verdict :: "env \<Rightarrow> llm_result \<Rightarrow> py_error + json \<times> json" where
  "judge_verdict ev r =
    (case loads ev (clean_json_text (result_text r)) of
       None \<Rightarrow> Inl JSONDecodeError
     | Some judged \<Rightarrow>
        (case attr_get judged ''verdict'' JNull of
           Inl e \<Rightarrow> Inl e
         | Inr verdict \<Rightarrow>
            (case attr_get judged ''reason'' JNull of
               Inl e \<Rightarrow> Inl e
             | Inr reason \<Rightarrow> Inr (verdict, reason))))"

text \<open>\<open>update\<close> of one nested field, written \<open>outer.inner\<close> in the source.\<close>

definition doc_update_nested ::
  "(string \<times> dict) list \<Rightarrow> json \<Rightarrow> string \<Rightarrow> string \<Rightarrow> json
     \<Rightarrow> py_error + (string \<times> dict) list" where
  "doc_update_nested coll name outer inner v =
    (case document coll name of
       Inl e \<Rightarrow> Inl e
     | Inr None \<Rightarrow> Inl NotFound
     | Inr (Some d) \<Rightarrow>
        (case name of
           JStr s \<Rightarrow>
            (let m = (case map_of d outer of Some (JObj m) \<Rightarrow> m | _ \<Rightarrow> [])
             in Inr (AList.update s (AList.update outer (JObj (AList.update inner v m)) d) coll))
         | _ \<Rightarrow> Inl NotFound))"

text \<open>Step 5, the promotion: the pointer is updated first, the candidate is marked
  active second.\<close>

definition promote :: "env \<Rightarrow> store \<Rightarrow> json \<Rightarrow> json \<Rightarrow> dict \<Rightarrow> json \<Rightarrow> run" where
  "promote ev st original_agent_id candidate_agent_id candidate_data failure_reason =
    (let pointer_update =
           [(''active_agent_doc_ref'', candidate_agent_id),
            (''current_version'', dict_get candidate_data ''version'' JNull),
            (''last_updated'', JFloat (clock ev)),
            (''reason'', JStr (''Auto-fixed: '' @ fmt (str_of ev) failure_reason))]
     in case doc_update (pointers st) original_agent_id pointer_update of
          Inl e \<Rightarrow> (Some e, st, [])
        | Inr pointers' \<Rightarrow>
           (let st1 = st\<lparr>pointers := pointers'\<rparr>;
                switched = [DbUpdate COL_ROUTER original_agent_id pointer_update]
            in case doc_update_nested (agents st1) candidate_agent_id
                      ''metadata'' ''deployment_state'' (JStr ''ACTIVE'') of
                 Inl e \<Rightarrow> (Some e, st1, switched)
               | Inr agents' \<Rightarrow>
                  (None, st1\<lparr>agents := agents'\<rparr>,
                   switched @
                   [DbUpdate COL_AGENTS candidate_agent_id
                      [(''metadata.deployment_state'', JStr ''ACTIVE'')],
                    Metric ''autonomic.backend.cost'',
                    Metric ''autonomic.backend.cost'',
                    Metric ''autonomic.deployments.success''])))"

text \<open>Steps 3 to 5: the two gates in order, then the promotion. \<open>replay\<close>, \<open>performance\<close>
  and \<open>compliance\<close> are the outcomes of the three model calls.\<close>

definition evaluation_gates ::
  "env \<Rightarrow> store \<Rightarrow> json \<Rightarrow> json \<Rightarrow> json \<Rightarrow> json \<Rightarrow> json \<Rightarrow> dict \<Rightarrow> json \<Rightarrow> json
     \<Rightarrow> py_error + llm_result \<Rightarrow> py_error + llm_result \<Rightarrow> run" where
  "evaluation_gates ev st chat_id candidate_agent_id original_agent_id failure_reason
       refinement_depth candidate_data auditor_rules original_audit_reason performance compliance =
    (case performance of
       Inl e \<Rightarrow> (Some e, st, [])
     | Inr perf_result \<Rightarrow>
        (case judge_verdict ev perf_result of
           Inl e \<Rightarrow> (Some e, st, [])
         | Inr (perf_verdict, perf_reason) \<Rightarrow>
            if perf_verdict = JStr ''FAIL''
            then
              (case handle_failure chat_id candidate_agent_id refinement_depth
                      (''Performance Check Failed: '' @ fmt (str_of ev) perf_reason)
                      original_audit_reason of
                 (raised, effs) \<Rightarrow> (raised, st, effs))
            else
              (let step1 = [Log chat_id ''EVALUATOR'' ''INFO''
                              ''Step 1 Passed: The agent fixed the immediate issue.'']
               in case py_iter auditor_rules of
                    Inl e \<Rightarrow> (Some e, st, step1)
                  | Inr rules \<Rightarrow>
                     if \<not> serializable (dict_get candidate_data ''prompt'' (JObj []))
                     then (Some TypeError, st, step1)
                     else
                       (case compliance of
                          Inl e \<Rightarrow> (Some e, st, step1)
                        | Inr comp_result \<Rightarrow>
                           (case judge_verdict ev comp_result of
                              Inl e \<Rightarrow> (Some e, st, step1)
                            | Inr (comp_verdict, comp_reason) \<Rightarrow>
                               if comp_verdict = JStr ''FAIL''
                               then
                                 (case handle_failure chat_id candidate_agent_id refinement_depth
                                         (''Compliance Check Failed: '' @ fmt (str_of ev) comp_reason)
                                         original_audit_reason of
                                    (raised, effs) \<Rightarrow> (raised, st, step1 @ effs))
                               else
                                 (let step2 = step1 @
                                        [Log chat_id ''EVALUATOR'' ''INFO''
                                           ''Step 2 Passed: No regression or rule violations.'',
                                         Log chat_id ''EVALUATOR'' ''SUCCESS'' ''PROMOTING to LIVE!'']
                                  in case promote ev st original_agent_id candidate_agent_id
                                            candidate_data failure_reason of
                                       (raised, st', effs) \<Rightarrow> (raised, st', step2 @ effs)))))))"

text \<open>The body of the \<open>try\<close> block of \<open>run_evaluation\<close>.\<close>

definition evaluation_try ::
  "env \<Rightarrow> store \<Rightarrow> json \<Rightarrow> json \<Rightarrow> json \<Rightarrow> json \<Rightarrow> json
     \<Rightarrow> py_error + llm_result \<Rightarrow> py_error + llm_result \<Rightarrow> py_error + llm_result \<Rightarrow> run" where
  "evaluation_try ev st chat_id candidate_agent_id original_agent_id failure_reason
       refinement_depth replay performance compliance =
    (case document (chats st) chat_id of
       Inl e \<Rightarrow> (Some e, st, [])
     | Inr None \<Rightarrow>
         (None, st, [Log chat_id ''EVALUATOR'' ''ERROR'' ''Chat history not found. Aborting.''])
     | Inr (Some chat_data) \<Rightarrow>
        (case attr_get (dict_get chat_data ''audit_result'' (JObj [])) ''reason''
                (JStr ''Unknown Audit Failure'') of
           Inl e \<Rightarrow> (Some e, st, [])
         | Inr original_audit_reason \<Rightarrow>
            (case py_iter (dict_get chat_data ''history'' (JArr [])) of
               Inl e \<Rightarrow> (Some e, st, [])
             | Inr history \<Rightarrow>
                (case scan_history (JStr []) history of
                   Inl e \<Rightarrow> (Some e, st, [])
                 | Inr last_user_input \<Rightarrow>
                    if \<not> truthy last_user_input
                    then (None, st, [Log chat_id ''EVALUATOR'' ''ERROR''
                                       ''No user input found in history.''])
                    else
                      (case document (agents st) candidate_agent_id of
                         Inl e \<Rightarrow> (Some e, st, [])
                       | Inr None \<Rightarrow>
                           (None, st, [Log chat_id ''EVALUATOR'' ''ERROR''
                                         ''Candidate agent doc missing.''])
                       | Inr (Some candidate_data) \<Rightarrow>
                          (case attr_get (dict_get candidate_data ''upgrade_config'' (JObj []))
                                  ''auditor_rules'' (JArr []) of
                             Inl e \<Rightarrow> (Some e, st, [])
                           | Inr auditor_rules \<Rightarrow>
                              (case candidate_system_prompt
                                      (dict_get candidate_data ''prompt'' (JObj [])) of
                                 Inl e \<Rightarrow> (Some e, st, [])
                               | Inr u \<Rightarrow>
                                  (let replaying = [Log chat_id ''EVALUATOR'' ''INFO''
                                                      ''Replaying conversation with NEW agent...'']
                                   in case replay of
                                        Inl e \<Rightarrow> (Some e, st, replaying)
                                      | Inr replay_result \<Rightarrow>
                                         (let replayed = replaying @
                                                [Log chat_id ''EVALUATOR'' ''INFO'' ''New Agent Response'']
                                          in case evaluation_gates ev st chat_id candidate_agent_id
                                                    original_agent_id failure_reason refinement_depth
                                                    candidate_data auditor_rules original_audit_reason
                                                    performance compliance of
                                               (raised, st', effs) \<Rightarrow>
                                                 (raised, st', replayed @ effs))))))))))"

definition run_evaluation ::
  "env \<Rightarrow> store \<Rightarrow> dict
     \<Rightarrow> py_error + llm_result \<Rightarrow> py_error + llm_result \<Rightarrow> py_error + llm_result \<Rightarrow> run" where
  "run_evaluation ev st payload replay performance compliance =
    (let chat_id = dict_get payload ''chat_id'' JNull;
         candidate_agent_id = dict_get payload ''target_agent_id'' JNull;
         original_agent_id = dict_get payload ''original_agent_id'' JNull;
         failure_reason = dict_get payload ''trigger_reason'' JNull;
         refinement_depth = dict_get payload ''refinement_depth'' (JInt 0);
         evaluating = Log chat_id ''EVALUATOR'' ''INFO'' ''Evaluating Candidate''
     in case evaluation_try ev st chat_id candidate_agent_id original_agent_id failure_reason
               refinement_depth replay performance compliance of
          (None, st', effs) \<Rightarrow> (None, st', evaluating # effs)
        | (Some e, st', effs) \<Rightarrow>
           (None, st', evaluating # effs @
              [Log chat_id ''EVALUATOR'' ''ERROR'' ''Critical Error'']))"

section \<open>The Auditor (\<open>src/services/auditor_worker.py\<close>)\<close>

text \<open>A rule list read from the configuration: an empty or missing one is replaced by
  a default rule, and the list is then iterated to format the prompt.\<close>

definition rules_or_default :: "json \<Rightarrow> string \<Rightarrow> py_error + json list" where
  "rules_or_default rules dflt = (if \<not> truthy rules then Inr [JStr dflt] else py_iter rules)"

text \<open>The loop that formats the conversation history: every turn must be a
  dictionary whose role is a string.\<close>

fun format_turns :: "json list \<Rightarrow> py_error + unit" where
  "format_turns [] = Inr ()"
| "format_turns (turn # turns) =
    (case attr_get turn ''role'' (JStr ''unknown'') of
       Inl e \<Rightarrow> Inl e
     | Inr role \<Rightarrow>
        (case attr_get turn ''content'' (JStr []) of
           Inl e \<Rightarrow> Inl e
         | Inr content \<Rightarrow>
            (case str_upper role of
               Inl e \<Rightarrow> Inl e
             | Inr u \<Rightarrow> format_turns turns)))"

definition conversation_context :: "json \<Rightarrow> py_error + unit" where
  "conversation_context history =
    (if \<not> truthy history then Inr ()
     else (case py_iter history of Inl e \<Rightarrow> Inl e | Inr turns \<Rightarrow> format_turns turns))"

text \<open>What the Auditor reads of the active configuration between fetching the chat and
  calling the model: the two rule lists, each replaced by a default when empty, and
  the resources.\<close>

definition audit_inputs :: "store \<Rightarrow> json \<Rightarrow> py_error + unit" where
  "audit_inputs st agent_id =
    (case get_current_agent_config st agent_id of
       Inl e \<Rightarrow> Inl e
     | Inr agent_config \<Rightarrow>
        (let upgrade_config = dict_get agent_config ''upgrade_config'' (JObj [])
         in case attr_get upgrade_config ''auditor_rules'' (JArr []) of
              Inl e \<Rightarrow> Inl e
            | Inr audit_rules_list \<Rightarrow>
               (case attr_get upgrade_config ''evaluator_rubric'' (JArr []) of
                  Inl e \<Rightarrow> Inl e
                | Inr evaluator_rubric_list \<Rightarrow>
                   (case rules_or_default audit_rules_list ''Check for helpfulness and accuracy.'' of
                      Inl e \<Rightarrow> Inl e
                    | Inr audit_rules \<Rightarrow>
                       (case rules_or_default evaluator_rubric_list
                               ''Agent provided correct information.'' of
                          Inl e \<Rightarrow> Inl e
                        | Inr evaluator_rubric \<Rightarrow>
                           (case attr_get (dict_get agent_config ''resources'' (JObj []))
                                   ''knowledge_base_text'' (JStr []) of
                              Inl e \<Rightarrow> Inl e
                            | Inr knowledge_base \<Rightarrow> Inr ()))))))"

text \<open>The judgment: the model's text, cleaned and parsed. Empty text and unparseable
  text both give a synthetic failure of priority \<open>HIGH\<close>.\<close>

definition audit_judgment :: "env \<Rightarrow> json \<Rightarrow> string \<Rightarrow> effect list \<times> json" where
  "audit_judgment ev chat_id raw_response =
    (let clean_text = clean_json_text raw_response
     in if clean_text = []
        then ([Log chat_id ''AUDITOR'' ''ERROR'' ''LLM returned empty response!''],
              JObj [(''verdict'', JStr ''FAIL''),
                    (''reason'', JStr ''LLM evaluation failed - empty response''),
                    (''priority'', JStr ''HIGH'')])
        else (case loads ev clean_text of
                Some audit_result \<Rightarrow>
                  ([Log chat_id ''AUDITOR'' ''INFO'' ''Valid JSON received''], audit_result)
              | None \<Rightarrow>
                  ([Log chat_id ''AUDITOR'' ''ERROR'' ''Invalid JSON''],
                   JObj [(''verdict'', JStr ''FAIL''),
                         (''reason'', JStr ''LLM evaluation failed - invalid JSON output.''),
                         (''priority'', JStr ''HIGH'')])))"

text \<open>The three fields of the judgment, each with its default.\<close>

definition audit_fields :: "json \<Rightarrow> py_error + (json \<times> json \<times> json)" where
  "audit_fields audit_result =
    (case attr_get audit_result ''verdict'' (JStr ''FAIL'') of
       Inl e \<Rightarrow> Inl e
     | Inr verdict \<Rightarrow>
        (case attr_get audit_result ''reason'' (JStr ''Unknown error'') of
           Inl e \<Rightarrow> Inl e
         | Inr reason \<Rightarrow>
            (case attr_get audit_result ''priority'' (JStr ''LOW'') of
               Inl e \<Rightarrow> Inl e
             | Inr priority \<Rightarrow> Inr (verdict, reason, priority))))"

text \<open>Steps 3 and 4: the result is stored in the chat document, overwriting the
  previous one, and a failed verdict is escalated to the Refiner. Two operations can
  raise before the result is stored: \<open>verdict.lower()\<close> and \<open>reason[:30]\<close>, in the
  tags of the verdict metric.\<close>

definition record_and_escalate ::
  "env \<Rightarrow> store \<Rightarrow> json \<Rightarrow> json \<Rightarrow> json \<Rightarrow> json \<Rightarrow> json \<Rightarrow> json \<times> json \<times> json \<Rightarrow> run" where
  "record_and_escalate ev st chat_id agent_id history user_input bot_response judged =
    (case judged of
       (verdict, reason, priority) \<Rightarrow>
        (let saving = [Log chat_id ''AUDITOR'' ''INFO'' ''Saving audit result...'']
         in case str_lower verdict of
              Inl e \<Rightarrow> (Some e, st, saving)
            | Inr verdict_tag \<Rightarrow>
               (case slice_ok reason of
                  Inl e \<Rightarrow> (Some e, st, saving)
                | Inr u \<Rightarrow>
                   (let measured = saving @ [Metric ''autonomic.audit.verdict'',
                                              Metric ''autonomic.backend.cost''];
                        result = [(''audit_result'',
                                   JObj [(''verdict'', verdict), (''reason'', reason),
                                         (''priority'', priority),
                                         (''timestamp'', JTime (clock ev))])]
                    in if \<not> storable ev result then (Some ValueError, st, measured)
                       else
                         (case doc_update (chats st) chat_id result of
                            Inl e \<Rightarrow> (Some e, st, measured)
                          | Inr chats' \<Rightarrow>
                             (let st' = st\<lparr>chats := chats'\<rparr>;
                                  stored = measured @
                                    [DbUpdate COL_CHATS chat_id result,
                                     Log chat_id ''AUDITOR''
                                       (if verdict = JStr ''FAIL'' then ''WARNING'' else ''SUCCESS'')
                                       ''Verdict'']
                              in if verdict = JStr ''FAIL''
                                 then
                                   (let escalating = stored @
                                          [Log chat_id ''AUDITOR'' ''CRITICAL''
                                             ''Escalating to Refiner...''];
                                        refine_payload =
                                          [(''chat_id'', chat_id),
                                           (''agent_id'', agent_id),
                                           (''failure_reason'', reason),
                                           (''original_input'', user_input),
                                           (''bad_response'', bot_response),
                                           (''full_history'', history),
                                           (''priority'', priority)]
                                    in case publish_background_event TOPIC_REFINE refine_payload of
                                         Inl e \<Rightarrow> (Some e, st', escalating)
                                       | Inr published \<Rightarrow>
                                          (None, st', escalating @
                                             [published,
                                              Log chat_id ''AUDITOR'' ''INFO'' ''Refine job queued.'']))
                                 else
                                   (None, st', stored @
                                      [Log chat_id ''AUDITOR'' ''SUCCESS''
                                         ''Case closed. No action needed.''])))))))"

text \<open>The body of the \<open>try\<close> block of \<open>evaluate_interaction\<close>.\<close>

definition evaluate_try :: "env \<Rightarrow> store \<Rightarrow> dict \<Rightarrow> py_error + llm_result \<Rightarrow> run" where
  "evaluate_try ev st payload llm =
    (let chat_id = dict_get payload ''chat_id'' JNull;
         agent_id = dict_get payload ''agent_id'' JNull;
         fetching = [Log chat_id ''AUDITOR'' ''INFO'' ''Fetching conversation and rules...'']
     in case document (chats st) chat_id of
          Inl e \<Rightarrow> (Some e, st, fetching)
        | Inr None \<Rightarrow>
           (None, st, fetching @ [Log chat_id ''AUDITOR'' ''ERROR'' ''Chat not found in DB. Skipping.''])
        | Inr (Some chat_data) \<Rightarrow>
           (let history = dict_get chat_data ''history'' (JArr []);
                existing_audit = dict_get chat_data ''audit_result'' JNull
            in case (if truthy existing_audit
                     then (case attr_get existing_audit ''reason'' (JStr []) of
                             Inl e \<Rightarrow> Inl e
                           | Inr previous \<Rightarrow>
                              Inr [Log chat_id ''AUDITOR'' ''WARNING''
                                     ''Previous audit found - Updating...''])
                     else Inr []) of
                 Inl e \<Rightarrow> (Some e, st, fetching)
               | Inr warned \<Rightarrow>
                  (case audit_inputs st agent_id of
                     Inl e \<Rightarrow> (Some e, st, fetching @ warned)
                   | Inr u \<Rightarrow>
                      (let evaluating = fetching @ warned @
                             [Log chat_id ''AUDITOR'' ''INFO'' ''Evaluating with LLM...'']
                       in case dict_item payload ''user_input'' of
                            Inl e \<Rightarrow> (Some e, st, evaluating)
                          | Inr user_input \<Rightarrow>
                             (case dict_item payload ''bot_response'' of
                                Inl e \<Rightarrow> (Some e, st, evaluating)
                              | Inr bot_response \<Rightarrow>
                                 (case conversation_context history of
                                    Inl e \<Rightarrow> (Some e, st, evaluating)
                                  | Inr u' \<Rightarrow>
                                     (case llm of
                                        Inl e \<Rightarrow> (Some e, st, evaluating)
                                      | Inr llm_result \<Rightarrow>
                                         (case audit_judgment ev chat_id (result_text llm_result) of
                                            (parsed, audit_result) \<Rightarrow>
                                             (let answered = evaluating @
                                                    [Log chat_id ''AUDITOR'' ''INFO'' ''Raw LLM response'']
                                                    @ parsed
                                              in case audit_fields audit_result of
                                                   Inl e \<Rightarrow> (Some e, st, answered)
                                                 | Inr judged \<Rightarrow>
                                                    (case record_and_escalate ev st chat_id agent_id
                                                            history user_input bot_response judged of
                                                       (raised, st', effs) \<Rightarrow>
                                                         (raised, st', answered @ effs)))))))))))"

definition evaluate_interaction :: "env \<Rightarrow> store \<Rightarrow> dict \<Rightarrow> py_error + llm_result \<Rightarrow> run" where
  "evaluate_interaction ev st payload llm =
    (let chat_id = dict_get payload ''chat_id'' JNull;
         picked = Log chat_id ''AUDITOR'' ''INFO'' ''Picked up audit job from Queue...''
     in case evaluate_try ev st payload llm of
          (None, st', effs) \<Rightarrow> (None, st', picked # effs)
        | (Some e, st', effs) \<Rightarrow>
           (None, st', picked # effs @ [Log chat_id ''AUDITOR'' ''ERROR'' ''Error'']))"

section \<open>The Gateway (\<open>src/services/gateway_service.py\<close>)\<close>









section \<open>Notions of the specification\<close>

text \<open>The version numbers of the documents of a family (the documents whose name,
  cut before \<open>_v\<close>, is the family), and the versions of the documents a run created.\<close>

definition family_versions :: "store \<Rightarrow> string \<Rightarrow> int list" where
  "family_versions st family =
    concat (map (\<lambda>kd. if split_head ''_v'' (fst kd) = family
                      then (case map_of (snd kd) ''version'' of Some (JInt n) \<Rightarrow> [n] | _ \<Rightarrow> [])
                      else [])
             (agents st))"

definition created_versions :: "effect list \<Rightarrow> json list" where
  "created_versions effs =
    concat (map (\<lambda>e. case e of DbSet coll cid cand \<Rightarrow> [dict_get cand ''version'' JNull] | _ \<Rightarrow> [])
             effs)"

text \<open>An effect that is a log line, and nothing else.\<close>

fun is_log :: "effect \<Rightarrow> bool" where
  "is_log (Log c component level message) = True"
| "is_log (LogWith c component level message metadata) = True"
| "is_log e = False"

text \<open>A log line of level \<open>INFO\<close> or \<open>ERROR\<close>: neither the rejection warning of
  \<open>handle_failure\<close>, nor a critical alert, nor a promotion.\<close>

fun routine_log :: "effect \<Rightarrow> bool" where
  "routine_log (Log c component level message) = (level = ''INFO'' \<or> level = ''ERROR'')"
| "routine_log e = False"

text \<open>The field names of the payloads published on a topic, in order of publication.\<close>

definition published_keys :: "string \<Rightarrow> effect list \<Rightarrow> string list list" where
  "published_keys topic_name effs =
    concat (map (\<lambda>e. case e of
                        Publish t p \<Rightarrow> (if t = topic_name then [map fst p] else [])
                      | _ \<Rightarrow> [])
             effs)"





section \<open>Example states\<close>


text \<open>A family \<open>acme\<close> seeded at version 1, with a candidate \<open>acme_v2\<close>, a chat whose
  last audit failed, and a stand-in for \<open>json.loads\<close> that parses the few texts the
  examples use.\<close>

definition quoted :: "string \<Rightarrow> string" where
  "quoted s = CHR 0x22 # s @ [CHR 0x22]"

definition pass_text :: string where
  "pass_text = ''{'' @ quoted ''verdict'' @ '': '' @ quoted ''PASS'' @ ''}''"

definition fail_text :: string where
  "fail_text = ''{'' @ quoted ''verdict'' @ '': '' @ quoted ''FAIL'' @ '', '' @
               quoted ''reason'' @ '': '' @ quoted ''no email ask'' @ ''}''"

definition tone_text :: string where
  "tone_text = ''{'' @ quoted ''persona'' @ '': {'' @ quoted ''role'' @ '': '' @
               quoted ''Closer'' @ ''}}''"

definition loads0 :: "string \<Rightarrow> json option" where
  "loads0 s =
    (if s = pass_text then Some (JObj [(''verdict'', JStr ''PASS'')])
     else if s = fail_text
       then Some (JObj [(''verdict'', JStr ''FAIL''), (''reason'', JStr ''no email ask'')])
     else if s = tone_text
       then Some (JObj [(''persona'', JObj [(''role'', JStr ''Closer'')])])
     else if s = ''{}'' then Some (JObj [])
     else None)"

definition ev0 :: env where
  "ev0 = \<lparr>loads = loads0, str_of = (\<lambda>v. ''?''), clock = 100, storable = (\<lambda>d. True)\<rparr>"

definition acme_v1 :: dict where
  "acme_v1 =
    [(''agent_id'', JStr ''acme''),
     (''version'', JInt 1),
     (''metadata'', JObj [(''agentid'', JStr ''acme''), (''version'', JInt 1),
                          (''deployment_state'', JStr ''ACTIVE'')]),
     (''config'', JObj [(''model_id'', JStr ''gemini-2.5-flash''), (''max_tokens'', JInt 800)]),
     (''prompt'', JObj [(''persona'', JObj [(''role'', JStr ''Concierge''), (''tone'', JStr ''Warm'')]),
                        (''style_guide'', JArr [JStr ''Be brief.'']),
                        (''objectives'', JArr [JStr ''Sell cars.'']),
                        (''operational_guidelines'', JArr [JStr ''Be polite.''])]),
     (''resources'', JObj [(''knowledge_base_text'', JStr ''Model Y in stock.''),
                           (''policy_text'', JStr ''Deposits are refundable.'')]),
     (''upgrade_config'', JObj [(''auditor_rules'', JArr [JStr ''Ask for an email.'']),
                                (''evaluator_rubric'', JArr [JStr ''Concise?''])])]"

definition acme_v2 :: dict where
  "acme_v2 =
    AList.update ''version'' (JInt 2)
      (AList.update ''agent_id'' (JStr ''acme_v2'')
        (AList.update ''metadata''
           (JObj [(''agentid'', JStr ''acme_v2''), (''version'', JInt 2),
                  (''deployment_state'', JStr ''TEST_CANDIDATE'')]) acme_v1))"

definition chat_c1 :: dict where
  "chat_c1 =
    [(''history'', JArr [JObj [(''role'', JStr ''user''), (''content'', JStr ''Price of Model Y?'')],
                         JObj [(''role'', JStr ''model''), (''content'', JStr ''It is 40k.'')]]),
     (''audit_result'', JObj [(''verdict'', JStr ''FAIL''), (''reason'', JStr ''missing email ask''),
                              (''priority'', JStr ''HIGH'')])]"

definition st_acme :: store where
  "st_acme =
    \<lparr>agents = [(''acme'', acme_v1), (''acme_v2'', acme_v2)],
     pointers = [(''acme'', [(''agentid'', JStr ''acme''), (''current_version'', JInt 1),
                             (''reason'', JStr ''Initial Seed''),
                             (''active_agent_doc_ref'', JStr ''acme'')])],
     chats = [(''c1'', chat_c1)]\<rparr>"

definition reply :: "string \<Rightarrow> py_error + llm_result" where
  "reply s = Inr (generate_response \<lparr>response_text = s, usage_metadata = Some (120, 40)\<rparr>
                    (1 / 2) ''prompt'' ''system'' ''gemini-2.5-flash'')"

definition evaluate_job :: "int \<Rightarrow> dict" where
  "evaluate_job depth =
    [(''target_agent_id'', JStr ''acme_v2''), (''original_agent_id'', JStr ''acme''),
     (''chat_id'', JStr ''c1''), (''trigger_reason'', JStr ''missing email ask''),
     (''refinement_depth'', JInt depth), (''version'', JInt 2)]"

definition refine_job :: "string \<Rightarrow> int \<Rightarrow> dict" where
  "refine_job agent depth =
    [(''chat_id'', JStr ''c1''), (''agent_id'', JStr agent),
     (''failure_reason'', JStr ''missing email ask''), (''refinement_depth'', JInt depth)]"

definition cand_closer :: dict where
  "cand_closer =
    [(''agent_id'', JStr ''acme_v2''),
     (''version'', JInt 2),
     (''metadata'', JObj [(''agentid'', JStr ''acme_v2''), (''version'', JInt 2),
                          (''deployment_state'', JStr ''TEST_CANDIDATE''),
                          (''upgrade_reason'', JStr ''Refinement fix for: missing email ask'')]),
     (''config'', JObj [(''model_id'', JStr ''gemini-2.5-flash''), (''max_tokens'', JInt 800)]),
     (''prompt'', JObj [(''persona'', JObj [(''role'', JStr ''Closer'')]),
                        (''style_guide'', JArr [JStr ''Be brief.'']),
                        (''objectives'', JArr [JStr ''Sell cars.'']),
                        (''operational_guidelines'', JArr [JStr ''Be polite.''])]),
     (''resources'', JObj [(''knowledge_base_text'', JStr ''Model Y in stock.''),
                           (''policy_text'', JStr ''Deposits are refundable.'')]),
     (''upgrade_config'', JObj [(''auditor_rules'', JArr [JStr ''Ask for an email.'']),
                                (''evaluator_rubric'', JArr [JStr ''Concise?''])]),
     (''created_at'', JTime 100)]"

definition refined_effects :: "effect list" where
  "refined_effects =
    [Log (JStr ''c1'') ''REFINER'' ''INFO'' ''Starting refinement'',
     Log (JStr ''c1'') ''REFINER'' ''INFO'' ''Asking LLM to fix the prompt...'',
     Log (JStr ''c1'') ''REFINER'' ''INFO'' ''Saving candidate'',
     DbSet ''agents'' ''acme_v2'' cand_closer,
     Metric ''autonomic.backend.cost'',
     Publish ''autonomic-eval-jobs''
       [(''target_agent_id'', JStr ''acme_v2''), (''original_agent_id'', JStr ''acme''),
        (''chat_id'', JStr ''c1''), (''trigger_reason'', JStr ''missing email ask''),
        (''refinement_depth'', JInt 0), (''version'', JInt 2)],
     Event ''Refiner: Fix Applied'' ''info'',
     Log (JStr ''c1'') ''REFINER'' ''SUCCESS'' ''Refinement Complete. Sent to Evaluator.'']"

text \<open>The family after a second refinement was promoted: versions 1, 2 and 3 exist,
  the pointer names \<open>acme_v3\<close>.\<close>

definition acme_v3 :: dict where
  "acme_v3 =
    AList.update ''version'' (JInt 3)
      (AList.update ''agent_id'' (JStr ''acme_v3'')
        (AList.update ''metadata''
           (JObj [(''agentid'', JStr ''acme_v3''), (''version'', JInt 3),
                  (''deployment_state'', JStr ''ACTIVE'')]) acme_v1))"

definition st_three :: store where
  "st_three =
    \<lparr>agents = [(''acme'', acme_v1), (''acme_v2'', acme_v2), (''acme_v3'', acme_v3)],
     pointers = [(''acme'', [(''agentid'', JStr ''acme''), (''current_version'', JInt 3),
                             (''reason'', JStr ''Auto-fixed: missing email ask''),
                             (''active_agent_doc_ref'', JStr ''acme_v3'')])],
     chats = [(''c1'', chat_c1)]\<rparr>"




definition audit_job :: dict where
  "audit_job =
    [(''chat_id'', JStr ''c1''), (''agent_id'', JStr ''acme''), (''agent_version'', JStr ''v1''),
     (''user_input'', JStr ''Price of Model Y?''), (''bot_response'', JStr ''It is 40k.''),
     (''prompt_used'', JStr ''You are a Concierge with a Warm tone.'')]"



section \<open>Evaluation lemmas\<close>


lemma lower_simps:
  "lower [] = []" "lower (c # cs) = lower_char c # lower cs"
  by (simp_all add: lower_def)





lemmas refiner_defs = refine_agent_def refine_try_def new_candidate_def mutable_context_def
  dict_update_any_def update_pair_def


section \<open>Where a stage publishes\<close>

lemma publish_background_event_cases:
  "publish_background_event t p = Inr e \<Longrightarrow> e = Publish t p"
  by (auto simp: publish_background_event_def split: if_splits)

lemma handle_failure_publish:
  assumes "handle_failure c a depth r ar = (x, effs)" and "Publish t p \<in> set effs"
  shows "t = TOPIC_REFINE \<and> py_lt depth 2 = Inr True \<and>
         (\<exists>d1 r'. py_add1 depth = Inr d1 \<and>
            p = [(''chat_id'', c), (''agent_id'', a), (''failure_reason'', JStr r'),
                 (''refinement_depth'', d1)])"
  using assms
  by (auto simp: handle_failure_def Let_def split: sum.splits bool.splits
           dest: publish_background_event_cases)

lemma promote_no_publish:
  "promote ev st o_id c_id cd fr = (x, st', effs) \<Longrightarrow> Publish t p \<notin> set effs"
  by (auto simp: promote_def Let_def split: sum.splits)

lemma evaluation_gates_publish:
  assumes "evaluation_gates ev st c cand orig fr depth cd rules ar perf cmp = (x, st', effs)"
    and "Publish t p \<in> set effs"
  shows "t = TOPIC_REFINE \<and> py_lt depth 2 = Inr True \<and>
         (\<exists>d1 r'. py_add1 depth = Inr d1 \<and>
            p = [(''chat_id'', c), (''agent_id'', cand), (''failure_reason'', JStr r'),
                 (''refinement_depth'', d1)])"
  using assms
  by (auto simp: evaluation_gates_def Let_def split: sum.splits if_splits prod.splits
      dest: promote_no_publish handle_failure_publish)

lemma evaluation_try_publish:
  assumes "evaluation_try ev st c cand orig fr depth rp perf cmp = (x, st', effs)"
    and "Publish t p \<in> set effs"
  shows "t = TOPIC_REFINE \<and> py_lt depth 2 = Inr True \<and>
         (\<exists>d1 r'. py_add1 depth = Inr d1 \<and>
            p = [(''chat_id'', c), (''agent_id'', cand), (''failure_reason'', JStr r'),
                 (''refinement_depth'', d1)])"
  using assms
  by (auto simp: evaluation_try_def Let_def split: sum.splits if_splits prod.splits option.splits
      dest: evaluation_gates_publish)

lemma run_evaluation_publish:
  assumes "run_evaluation ev st payload rp perf cmp = (x, st', effs)"
    and "Publish t p \<in> set effs"
  shows "t = TOPIC_REFINE \<and> py_lt (dict_get payload ''refinement_depth'' (JInt 0)) 2 = Inr True \<and>
         (\<exists>d1 r'. py_add1 (dict_get payload ''refinement_depth'' (JInt 0)) = Inr d1 \<and>
            p = [(''chat_id'', dict_get payload ''chat_id'' JNull),
                 (''agent_id'', dict_get payload ''target_agent_id'' JNull),
                 (''failure_reason'', JStr r'),
                 (''refinement_depth'', d1)])"
  using assms
  by (auto simp: run_evaluation_def Let_def split: prod.splits option.splits
      dest: evaluation_try_publish)

section \<open>What the Refiner writes\<close>

lemma publish_background_event_Inr:
  "publish_background_event t p = Inr e \<longleftrightarrow> serializable (JObj p) \<and> e = Publish t p"
  by (auto simp: publish_background_event_def)


lemma refine_try_created:
  assumes "refine_try ev st c a fr depth llm = (x, st', effs)"
    and "DbSet coll cid cand \<in> set effs"
  shows "\<exists>parent cfg base v.
           document (agents st) a = Inr (Some parent) \<and>
           new_candidate ev parent a fr cfg = Inr (cid, base, v, cand) \<and>
           coll = COL_AGENTS \<and>
           st' = st\<lparr>agents := AList.update cid cand (agents st)\<rparr>"
  using assms
  apply (auto simp: refine_try_def Let_def publish_background_event_Inr
      split: sum.splits option.splits if_splits prod.splits)
   apply blast+
  done

lemma refine_agent_created:
  assumes "refine_agent ev st job llm = (x, st', effs)"
    and "DbSet coll cid cand \<in> set effs"
  shows "\<exists>parent cfg base v.
           document (agents st) (dict_get job ''agent_id'' JNull) = Inr (Some parent) \<and>
           new_candidate ev parent (dict_get job ''agent_id'' JNull)
             (dict_get job ''failure_reason'' JNull) cfg = Inr (cid, base, v, cand) \<and>
           coll = COL_AGENTS \<and>
           st' = st\<lparr>agents := AList.update cid cand (agents st)\<rparr>"
  using assms
  apply (auto simp: refine_agent_def Let_def
      split: sum.splits option.splits if_splits prod.splits bool.splits)
   apply (drule (1) refine_try_created, blast)+
  done

lemma new_candidate_frame:
  assumes "new_candidate ev parent a fr cfg = Inr (cid, base, v, cand)"
  shows "\<exists>aid p p'.
           a = JStr aid \<and> base = split_head ''_v'' aid \<and>
           py_add1 (dict_get parent ''version'' (JInt 1)) = Inr v \<and>
           cid = base @ ''_v'' @ fmt (str_of ev) v \<and>
           map_of cand ''version'' = Some v \<and>
           map_of cand ''agent_id'' = Some (JStr cid) \<and>
           map_of parent ''prompt'' = Some (JObj p) \<and>
           map_of cand ''prompt'' = Some (JObj p') \<and>
           dict_update_any p cfg = Inr p' \<and>
           (\<forall>k. k \<notin> {''version'', ''agent_id'', ''created_at'', ''metadata'', ''prompt''}
                \<longrightarrow> map_of cand k = map_of parent k)"
  using assms
  by (auto simp: new_candidate_def Let_def dict_item_def update_conv'
      split: sum.splits option.splits json.splits if_splits)

lemma judge_verdict_unparsed:
  "loads ev (clean_json_text (result_text r)) = None \<Longrightarrow> judge_verdict ev r = Inl JSONDecodeError"
  by (simp add: judge_verdict_def)

lemma evaluation_try_gate1_raises:
  assumes "evaluation_try ev st c cand orig fr depth rp (Inr r) cmp = (x, st', effs)"
    and "judge_verdict ev r = Inl e"
  shows "st' = st \<and> list_all routine_log effs"
  using assms
  by (auto simp: evaluation_try_def evaluation_gates_def Let_def
      split: sum.splits option.splits if_splits prod.splits)

lemma evaluation_try_gate2_raises:
  assumes "evaluation_try ev st c cand orig fr depth rp (Inr r1) (Inr r2) = (x, st', effs)"
    and "judge_verdict ev r1 = Inr (v1, q1)" and "v1 \<noteq> JStr ''FAIL''"
    and "judge_verdict ev r2 = Inl e"
  shows "st' = st \<and> list_all routine_log effs"
  using assms
  by (auto simp: evaluation_try_def evaluation_gates_def Let_def
      split: sum.splits option.splits if_splits prod.splits)

lemma run_evaluation_wraps:
  assumes "run_evaluation ev st job rp perf cmp = (x, st', effs)"
  shows "x = None \<and> (\<exists>y effs'. evaluation_try ev st (dict_get job ''chat_id'' JNull)
            (dict_get job ''target_agent_id'' JNull) (dict_get job ''original_agent_id'' JNull)
            (dict_get job ''trigger_reason'' JNull) (dict_get job ''refinement_depth'' (JInt 0))
            rp perf cmp = (y, st', effs') \<and>
          (list_all routine_log effs' \<longrightarrow> list_all routine_log effs))"
  using assms
  by (auto simp: run_evaluation_def Let_def split: prod.splits option.splits)

lemma refine_try_unparsed:
  assumes "refine_try ev st c a fr depth (Inr r) = (x, st', effs)"
    and "loads ev (py_strip (py_replace fence [] (py_replace (fence @ ''json'') []
            (py_replace (fence @ fence) [] (result_text r))))) = None"
  shows "st' = st \<and> list_all is_log effs"
  using assms
  by (auto simp: refine_try_def Let_def split: sum.splits option.splits if_splits)

lemma refine_agent_unparsed:
  assumes "refine_agent ev st job (Inr r) = (x, st', effs)"
    and "loads ev (py_strip (py_replace fence [] (py_replace (fence @ ''json'') []
            (py_replace (fence @ fence) [] (result_text r))))) = None"
  shows "st' = st \<and> list_all is_log effs"
  using assms
  by (auto simp: refine_agent_def Let_def
      split: sum.splits option.splits if_splits prod.splits bool.splits
      dest: refine_try_unparsed)







section \<open>What the Auditor records and publishes\<close>

lemma record_and_escalate_publish:
  assumes "Publish t p \<in> set (snd (snd (record_and_escalate ev st c a h ui br judged)))"
  shows "t = TOPIC_REFINE \<and> fst judged = JStr ''FAIL'' \<and>
         p = [(''chat_id'', c), (''agent_id'', a), (''failure_reason'', fst (snd judged)),
              (''original_input'', ui), (''bad_response'', br), (''full_history'', h),
              (''priority'', snd (snd judged))]"
  using assms
  by (auto simp: record_and_escalate_def Let_def publish_background_event_Inr
      split: sum.splits if_splits prod.splits)


lemma audit_judgment_quiet:
  "Publish t p \<notin> set (fst (audit_judgment ev c raw))"
  "DbUpdate coll name upd \<notin> set (fst (audit_judgment ev c raw))"
  by (auto simp: audit_judgment_def Let_def split: if_splits option.splits)

lemma evaluate_try_publish:
  assumes "Publish t p \<in> set (snd (snd (evaluate_try ev st job llm)))"
  shows "t = TOPIC_REFINE \<and>
         (\<exists>reason ui br h priority.
            p = [(''chat_id'', dict_get job ''chat_id'' JNull),
                 (''agent_id'', dict_get job ''agent_id'' JNull),
                 (''failure_reason'', reason), (''original_input'', ui),
                 (''bad_response'', br), (''full_history'', h), (''priority'', priority)])"
  using assms
  by (auto simp: evaluate_try_def Let_def split_beta audit_judgment_quiet
      split: sum.splits option.splits if_splits
      dest!: record_and_escalate_publish)


lemma evaluate_interaction_projections:
  "fst (snd (evaluate_interaction ev st job llm)) = fst (snd (evaluate_try ev st job llm))"
  "Publish t p \<in> set (snd (snd (evaluate_interaction ev st job llm))) \<longleftrightarrow>
   Publish t p \<in> set (snd (snd (evaluate_try ev st job llm)))"
  "DbUpdate coll name upd \<in> set (snd (snd (evaluate_interaction ev st job llm))) \<longleftrightarrow>
   DbUpdate coll name upd \<in> set (snd (snd (evaluate_try ev st job llm)))"
  by (auto simp: evaluate_interaction_def Let_def split: option.splits prod.splits)

lemma refine_try_publish:
  assumes "refine_try ev st c a fr depth llm = (x, st', effs)" and "Publish t p \<in> set effs"
  shows "t = TOPIC_EVALUATE"
  using assms
  by (auto simp: refine_try_def Let_def publish_background_event_Inr
      split: sum.splits option.splits if_splits prod.splits)

lemma refine_agent_publish:
  assumes "refine_agent ev st job llm = (x, st', effs)" and "Publish t p \<in> set effs"
  shows "t = TOPIC_EVALUATE"
  using assms
  by (auto simp: refine_agent_def Let_def
      split: sum.splits option.splits if_splits prod.splits bool.splits
      dest: refine_try_publish)



section \<open>Rounding to a number of decimals\<close>




section \<open>What a turn of the Gateway enqueues\<close>



















section \<open>An unknown verdict triggers an audit\<close>



section \<open>The depth bound of the refinement loop\<close>



section \<open>What refinement leaves unchanged\<close>

text \<open>
  C2. Every candidate document a Refiner invocation creates (every \<open>set\<close> it performs)
  is written to the agents collection and derives from the parent document the job
  names, with the same \<open>upgrade_config\<close> (the auditor rules and the evaluator rubric),
  the same \<open>resources\<close> (knowledge base and policy text) and the same \<open>config\<close> (model
  id, temperature, maximal tokens). Of the contents of the configuration only the
  prompt differs: every top-level field other than \<open>prompt\<close> and the identity and
  bookkeeping fields the candidate gets (\<open>version\<close>, \<open>agent_id\<close>, \<open>created_at\<close>,
  \<open>metadata\<close>) is that of the parent, and the candidate's prompt is the parent's
  prompt updated with the model's answer.
\<close>

theorem candidate_keeps_rules_resources_model:
  assumes "refine_agent ev st job llm = (x, st', effs)"
    and "DbSet coll cid cand \<in> set effs"
  shows "\<exists>aid parent p p' cfg.
           dict_get job ''agent_id'' JNull = JStr aid \<and>
           map_of (agents st) aid = Some parent \<and>
           coll = COL_AGENTS \<and>
           st' = st\<lparr>agents := AList.update cid cand (agents st)\<rparr> \<and>
           map_of cand ''upgrade_config'' = map_of parent ''upgrade_config'' \<and>
           map_of cand ''resources'' = map_of parent ''resources'' \<and>
           map_of cand ''config'' = map_of parent ''config'' \<and>
           (\<forall>k. k \<notin> {''version'', ''agent_id'', ''created_at'', ''metadata'', ''prompt''}
                \<longrightarrow> map_of cand k = map_of parent k) \<and>
           map_of parent ''prompt'' = Some (JObj p) \<and>
           map_of cand ''prompt'' = Some (JObj p') \<and>
           dict_update_any p cfg = Inr p'"
proof -
  from refine_agent_created [OF assms]
  obtain parent cfg base v where
    doc: "document (agents st) (dict_get job ''agent_id'' JNull) = Inr (Some parent)" and
    new: "new_candidate ev parent (dict_get job ''agent_id'' JNull)
            (dict_get job ''failure_reason'' JNull) cfg = Inr (cid, base, v, cand)" and
    coll: "coll = COL_AGENTS" and
    st': "st' = st\<lparr>agents := AList.update cid cand (agents st)\<rparr>"
    by (elim exE conjE) (rule that; assumption)
  from new_candidate_frame [OF new]
  obtain aid p p' where
    aid: "dict_get job ''agent_id'' JNull = JStr aid" and
    frame: "\<forall>k. k \<notin> {''version'', ''agent_id'', ''created_at'', ''metadata'', ''prompt''}
                \<longrightarrow> map_of cand k = map_of parent k" and
    prompt: "map_of parent ''prompt'' = Some (JObj p)" "map_of cand ''prompt'' = Some (JObj p')"
      "dict_update_any p cfg = Inr p'"
    by (elim exE conjE) (rule that; assumption)
  from doc aid have parent: "map_of (agents st) aid = Some parent"
    by (simp add: document_def)
  from frame have imm: "map_of cand ''upgrade_config'' = map_of parent ''upgrade_config''"
    "map_of cand ''resources'' = map_of parent ''resources''"
    "map_of cand ''config'' = map_of parent ''config''"
    by simp_all
  show ?thesis
    apply (rule exI [of _ aid], rule exI [of _ parent], rule exI [of _ p], rule exI [of _ p'],
        rule exI [of _ cfg])
    using aid parent coll st' frame prompt imm
    apply (intro conjI)
    apply assumption+
    done
qed

theorem candidate_keeps_rules_resources_model_witness:
  "refine_agent ev0 st_acme (refine_job ''acme'' 0) (reply tone_text) =
     (None, st_acme\<lparr>agents := AList.update ''acme_v2'' cand_closer (agents st_acme)\<rparr>,
      refined_effects) \<and>
   DbSet ''agents'' ''acme_v2'' cand_closer \<in> set refined_effects \<and>
   (\<exists>aid parent p p' cfg.
      dict_get (refine_job ''acme'' 0) ''agent_id'' JNull = JStr aid \<and>
      map_of (agents st_acme) aid = Some parent \<and>
      ''agents'' = COL_AGENTS \<and>
      st_acme\<lparr>agents := AList.update ''acme_v2'' cand_closer (agents st_acme)\<rparr> =
        st_acme\<lparr>agents := AList.update ''acme_v2'' cand_closer (agents st_acme)\<rparr> \<and>
      map_of cand_closer ''upgrade_config'' = map_of parent ''upgrade_config'' \<and>
      map_of cand_closer ''resources'' = map_of parent ''resources'' \<and>
      map_of cand_closer ''config'' = map_of parent ''config'' \<and>
      (\<forall>k. k \<notin> {''version'', ''agent_id'', ''created_at'', ''metadata'', ''prompt''}
           \<longrightarrow> map_of cand_closer k = map_of parent k) \<and>
      map_of parent ''prompt'' = Some (JObj p) \<and>
      map_of cand_closer ''prompt'' = Some (JObj p') \<and>
      dict_update_any p cfg = Inr p')"
proof -
  have run: "refine_agent ev0 st_acme (refine_job ''acme'' 0) (reply tone_text) =
     (None, st_acme\<lparr>agents := AList.update ''acme_v2'' cand_closer (agents st_acme)\<rparr>,
      refined_effects)"
    by code_simp
  have created: "DbSet ''agents'' ''acme_v2'' cand_closer \<in> set refined_effects"
    by (simp add: refined_effects_def)
  show ?thesis
    by (intro conjI run created candidate_keeps_rules_resources_model [OF run created])
qed

section \<open>Version numbers of candidates\<close>

text \<open>
  C5, as stated, fails: the version of a candidate is not one more than the greatest
  version of its family. With versions 1, 2 and 3 of the family \<open>acme\<close> in the store, a
  RefineJob that names the family document \<open>acme\<close> (as the jobs of the Auditor do)
  creates a candidate of version 2.
\<close>

theorem version_not_max_plus_one_counterexample:
  "family_versions st_three ''acme'' = [1, 2, 3] \<and>
   created_versions
     (snd (snd (refine_agent ev0 st_three (refine_job ''acme'' 0) (reply tone_text)))) = [JInt 2] \<and>
   Max (set (family_versions st_three ''acme'')) + 1 = 4"
proof -
  have fam: "family_versions st_three ''acme'' = [1, 2, 3]"
    by code_simp
  have made: "created_versions
     (snd (snd (refine_agent ev0 st_three (refine_job ''acme'' 0) (reply tone_text)))) = [JInt 2]"
    by code_simp
  from fam made show ?thesis
    by simp
qed

text \<open>
  C5, amended. Every candidate document a Refiner invocation creates gets the version
  of the parent document the job names (1 when the parent has none) plus one, and is
  stored under the name made of the parent's name cut before \<open>_v\<close>, then \<open>_v\<close>, then that
  version, where it replaces any document already stored under that name; no other
  document of the collection changes. Two candidates with the same base name and the
  same version are therefore one document.
\<close>

theorem candidate_version_from_parent:
  assumes "refine_agent ev st job llm = (x, st', effs)"
    and "DbSet coll cid cand \<in> set effs"
  shows "\<exists>aid parent v.
           dict_get job ''agent_id'' JNull = JStr aid \<and>
           map_of (agents st) aid = Some parent \<and>
           py_add1 (dict_get parent ''version'' (JInt 1)) = Inr v \<and>
           (\<forall>n. dict_get parent ''version'' (JInt 1) = JInt n \<longrightarrow> v = JInt (n + 1)) \<and>
           map_of cand ''version'' = Some v \<and>
           cid = split_head ''_v'' aid @ ''_v'' @ fmt (str_of ev) v \<and>
           agents st' = AList.update cid cand (agents st) \<and>
           map_of (agents st') cid = Some cand \<and>
           (\<forall>k. k \<noteq> cid \<longrightarrow> map_of (agents st') k = map_of (agents st) k)"
proof -
  from refine_agent_created [OF assms]
  obtain parent cfg base v where
    doc: "document (agents st) (dict_get job ''agent_id'' JNull) = Inr (Some parent)" and
    new: "new_candidate ev parent (dict_get job ''agent_id'' JNull)
            (dict_get job ''failure_reason'' JNull) cfg = Inr (cid, base, v, cand)" and
    st': "st' = st\<lparr>agents := AList.update cid cand (agents st)\<rparr>"
    by (elim exE conjE) (rule that; assumption)
  from new_candidate_frame [OF new]
  obtain aid where
    aid: "dict_get job ''agent_id'' JNull = JStr aid" and
    base: "base = split_head ''_v'' aid" and
    v: "py_add1 (dict_get parent ''version'' (JInt 1)) = Inr v" and
    cid: "cid = base @ ''_v'' @ fmt (str_of ev) v" and
    version: "map_of cand ''version'' = Some v"
    by (elim exE conjE) (rule that; assumption)
  from doc aid have parent: "map_of (agents st) aid = Some parent"
    by (simp add: document_def)
  from v have int: "\<forall>n. dict_get parent ''version'' (JInt 1) = JInt n \<longrightarrow> v = JInt (n + 1)"
    by (auto simp: py_add1_def)
  from st' have upd: "agents st' = AList.update cid cand (agents st)"
    by simp
  then have here: "map_of (agents st') cid = Some cand"
    and others: "\<forall>k. k \<noteq> cid \<longrightarrow> map_of (agents st') k = map_of (agents st) k"
    by (simp_all add: update_conv')
  from cid base have cid': "cid = split_head ''_v'' aid @ ''_v'' @ fmt (str_of ev) v"
    by simp
  show ?thesis
    apply (rule exI [of _ aid], rule exI [of _ parent], rule exI [of _ v])
    using aid parent v int version cid' upd here others
    apply (intro conjI)
    apply assumption+
    done
qed

theorem candidate_version_from_parent_witness:
  "refine_agent ev0 st_acme (refine_job ''acme'' 0) (reply tone_text) =
     (None, st_acme\<lparr>agents := AList.update ''acme_v2'' cand_closer (agents st_acme)\<rparr>,
      refined_effects) \<and>
   DbSet ''agents'' ''acme_v2'' cand_closer \<in> set refined_effects \<and>
   (\<exists>aid parent v.
      dict_get (refine_job ''acme'' 0) ''agent_id'' JNull = JStr aid \<and>
      map_of (agents st_acme) aid = Some parent \<and>
      py_add1 (dict_get parent ''version'' (JInt 1)) = Inr v \<and>
      (\<forall>n. dict_get parent ''version'' (JInt 1) = JInt n \<longrightarrow> v = JInt (n + 1)) \<and>
      map_of cand_closer ''version'' = Some v \<and>
      ''acme_v2'' = split_head ''_v'' aid @ ''_v'' @ fmt (str_of ev0) v \<and>
      agents (st_acme\<lparr>agents := AList.update ''acme_v2'' cand_closer (agents st_acme)\<rparr>) =
        AList.update ''acme_v2'' cand_closer (agents st_acme) \<and>
      map_of (agents (st_acme\<lparr>agents := AList.update ''acme_v2'' cand_closer (agents st_acme)\<rparr>))
        ''acme_v2'' = Some cand_closer \<and>
      (\<forall>k. k \<noteq> ''acme_v2'' \<longrightarrow>
         map_of (agents (st_acme\<lparr>agents := AList.update ''acme_v2'' cand_closer (agents st_acme)\<rparr>)) k =
         map_of (agents st_acme) k))"
proof -
  have run: "refine_agent ev0 st_acme (refine_job ''acme'' 0) (reply tone_text) =
     (None, st_acme\<lparr>agents := AList.update ''acme_v2'' cand_closer (agents st_acme)\<rparr>,
      refined_effects)"
    by code_simp
  have created: "DbSet ''agents'' ''acme_v2'' cand_closer \<in> set refined_effects"
    by (simp add: refined_effects_def)
  show ?thesis
    by (intro conjI run created candidate_version_from_parent [OF run created])
qed

section \<open>A structured output that does not parse\<close>

text \<open>
  C6, amended. When the model's answer fails to parse as JSON, the job ends there, in
  the Refiner and in the Evaluator alike. The Refiner writes nothing to the store and
  its effects are log lines only: no candidate is set and no EvaluateJob is published.
  The Evaluator, whether the answer of the performance judge fails to parse, or that of
  the compliance judge after the first gate did not fail, acknowledges the job with the
  store unchanged and with nothing but \<open>INFO\<close> and \<open>ERROR\<close> log lines: the exception is
  caught and logged, \<open>handle_failure\<close> is not called, no RefineJob is published, no
  alert is raised and nothing is promoted.
\<close>

theorem unparsed_output_ends_job:
  "(\<forall>r x st' effs.
      refine_agent ev st rjob (Inr r) = (x, st', effs) \<and>
      loads ev (py_strip (py_replace fence [] (py_replace (fence @ ''json'') []
                 (py_replace (fence @ fence) [] (result_text r))))) = None
      \<longrightarrow> st' = st \<and> list_all is_log effs) \<and>
   (\<forall>r x st' effs.
      run_evaluation ev st job replay (Inr r) compliance = (x, st', effs) \<and>
      loads ev (clean_json_text (result_text r)) = None
      \<longrightarrow> x = None \<and> st' = st \<and> list_all routine_log effs) \<and>
   (\<forall>r1 r2 v1 q1 x st' effs.
      run_evaluation ev st job replay (Inr r1) (Inr r2) = (x, st', effs) \<and>
      judge_verdict ev r1 = Inr (v1, q1) \<and> v1 \<noteq> JStr ''FAIL'' \<and>
      loads ev (clean_json_text (result_text r2)) = None
      \<longrightarrow> x = None \<and> st' = st \<and> list_all routine_log effs)"
proof (intro conjI allI impI)
  fix r x st' effs
  assume "refine_agent ev st rjob (Inr r) = (x, st', effs) \<and>
      loads ev (py_strip (py_replace fence [] (py_replace (fence @ ''json'') []
                 (py_replace (fence @ fence) [] (result_text r))))) = None"
  then show "st' = st" and "list_all is_log effs"
    using refine_agent_unparsed by blast+
next
  fix r x st' effs
  assume h: "run_evaluation ev st job replay (Inr r) compliance = (x, st', effs) \<and>
      loads ev (clean_json_text (result_text r)) = None"
  then have j: "judge_verdict ev r = Inl JSONDecodeError"
    by (simp add: judge_verdict_unparsed)
  from h run_evaluation_wraps [of ev st job replay "Inr r" compliance x st' effs]
    evaluation_try_gate1_raises [OF _ j]
  show "x = None" and "st' = st" and "list_all routine_log effs"
    by blast+
next
  fix r1 r2 v1 q1 x st' effs
  assume h: "run_evaluation ev st job replay (Inr r1) (Inr r2) = (x, st', effs) \<and>
      judge_verdict ev r1 = Inr (v1, q1) \<and> v1 \<noteq> JStr ''FAIL'' \<and>
      loads ev (clean_json_text (result_text r2)) = None"
  then have j: "judge_verdict ev r2 = Inl JSONDecodeError"
    by (simp add: judge_verdict_unparsed)
  from h have j1: "judge_verdict ev r1 = Inr (v1, q1)" and v1: "v1 \<noteq> JStr ''FAIL''"
    by simp_all
  from h run_evaluation_wraps [of ev st job replay "Inr r1" "Inr r2" x st' effs]
    evaluation_try_gate2_raises [OF _ j1 v1 j]
  show "x = None" and "st' = st" and "list_all routine_log effs"
    by blast+
qed

text \<open>
  C6, as stated, fails for the Evaluator: a performance judge answering \<open>not json\<close>
  ends the job with the error logged and nothing else. There is no rejection warning
  of \<open>handle_failure\<close>, no retry and no alert.
\<close>

theorem unparsed_judge_not_routed_counterexample:
  "loads ev0 (clean_json_text (result_text (generate_response
       \<lparr>response_text = ''not json'', usage_metadata = Some (120, 40)\<rparr>
       (1 / 2) ''prompt'' ''system'' ''gemini-2.5-flash''))) = None \<and>
   run_evaluation ev0 st_acme (evaluate_job 0) (reply ''Sure.'') (reply ''not json'')
       (reply pass_text) =
     (None, st_acme,
      [Log (JStr ''c1'') ''EVALUATOR'' ''INFO'' ''Evaluating Candidate'',
       Log (JStr ''c1'') ''EVALUATOR'' ''INFO'' ''Replaying conversation with NEW agent...'',
       Log (JStr ''c1'') ''EVALUATOR'' ''INFO'' ''New Agent Response'',
       Log (JStr ''c1'') ''EVALUATOR'' ''ERROR'' ''Critical Error''])"
  by code_simp

theorem unparsed_output_ends_job_witness:
  "refine_agent ev0 st_acme (refine_job ''acme'' 0) (reply ''not json'') =
     (None, st_acme,
      [Log (JStr ''c1'') ''REFINER'' ''INFO'' ''Starting refinement'',
       Log (JStr ''c1'') ''REFINER'' ''INFO'' ''Asking LLM to fix the prompt...'',
       Log (JStr ''c1'') ''REFINER'' ''ERROR'' ''LLM generated invalid JSON. Aborting.'']) \<and>
   run_evaluation ev0 st_acme (evaluate_job 0) (reply ''Sure.'') (reply pass_text)
       (reply ''not json'') =
     (None, st_acme,
      [Log (JStr ''c1'') ''EVALUATOR'' ''INFO'' ''Evaluating Candidate'',
       Log (JStr ''c1'') ''EVALUATOR'' ''INFO'' ''Replaying conversation with NEW agent...'',
       Log (JStr ''c1'') ''EVALUATOR'' ''INFO'' ''New Agent Response'',
       Log (JStr ''c1'') ''EVALUATOR'' ''INFO''
         ''Step 1 Passed: The agent fixed the immediate issue.'',
       Log (JStr ''c1'') ''EVALUATOR'' ''ERROR'' ''Critical Error'']) \<and>
   fst (snd (run_evaluation ev0 st_acme (evaluate_job 0) (reply ''Sure.'') (reply ''not json'')
       (reply pass_text))) = st_acme \<and>
   list_all routine_log
     (snd (snd (run_evaluation ev0 st_acme (evaluate_job 0) (reply ''Sure.'') (reply ''not json'')
       (reply pass_text))))"
proof -
  let ?bad = "generate_response \<lparr>response_text = ''not json'', usage_metadata = Some (120, 40)\<rparr>
       (1 / 2) ''prompt'' ''system'' ''gemini-2.5-flash''"
  have unparsed: "loads ev0 (clean_json_text (result_text ?bad)) = None"
    by code_simp
  have refined: "refine_agent ev0 st_acme (refine_job ''acme'' 0) (reply ''not json'') =
     (None, st_acme,
      [Log (JStr ''c1'') ''REFINER'' ''INFO'' ''Starting refinement'',
       Log (JStr ''c1'') ''REFINER'' ''INFO'' ''Asking LLM to fix the prompt...'',
       Log (JStr ''c1'') ''REFINER'' ''ERROR'' ''LLM generated invalid JSON. Aborting.''])"
    by code_simp
  have gate2: "run_evaluation ev0 st_acme (evaluate_job 0) (reply ''Sure.'') (reply pass_text)
       (reply ''not json'') =
     (None, st_acme,
      [Log (JStr ''c1'') ''EVALUATOR'' ''INFO'' ''Evaluating Candidate'',
       Log (JStr ''c1'') ''EVALUATOR'' ''INFO'' ''Replaying conversation with NEW agent...'',
       Log (JStr ''c1'') ''EVALUATOR'' ''INFO'' ''New Agent Response'',
       Log (JStr ''c1'') ''EVALUATOR'' ''INFO''
         ''Step 1 Passed: The agent fixed the immediate issue.'',
       Log (JStr ''c1'') ''EVALUATOR'' ''ERROR'' ''Critical Error''])"
    by code_simp
  obtain x st' effs where run: "run_evaluation ev0 st_acme (evaluate_job 0) (reply ''Sure.'')
       (Inr ?bad) (reply pass_text) = (x, st', effs)"
    by (metis prod_cases3)
  from unparsed_output_ends_job [of ev0 st_acme "refine_job ''acme'' 0" "evaluate_job 0"
      "reply ''Sure.''" "reply pass_text"] run unparsed
  have "st' = st_acme \<and> list_all routine_log effs"
    by blast
  with run have "fst (snd (run_evaluation ev0 st_acme (evaluate_job 0) (reply ''Sure.'')
       (reply ''not json'') (reply pass_text))) = st_acme \<and>
     list_all routine_log (snd (snd (run_evaluation ev0 st_acme (evaluate_job 0)
       (reply ''Sure.'') (reply ''not json'') (reply pass_text))))"
    by (simp add: reply_def)
  with refined gate2 show ?thesis
    by simp
qed

section \<open>Promotion\<close>



section \<open>The fields of a RefineJob\<close>

text \<open>
  C7, amended. RefineJobs are published by the Evaluator and by the Auditor only (what
  the Refiner publishes goes to the evaluate topic), and every one of them carries
  \<open>chat_id\<close>, \<open>agent_id\<close> and \<open>failure_reason\<close>. The retry job of the Evaluator
  carries, besides these, \<open>refinement_depth\<close> and nothing else. The job the Auditor
  publishes on a \<open>FAIL\<close> verdict carries, besides these, \<open>original_input\<close>,
  \<open>bad_response\<close>, \<open>full_history\<close> and \<open>priority\<close>, and no \<open>refinement_depth\<close>:
  read as the Refiner reads it, with the default 0, its depth is 0.
\<close>

theorem refine_job_fields:
  "(\<forall>x st' effs t p.
      run_evaluation ev st job replay performance compliance = (x, st', effs) \<and>
      Publish t p \<in> set effs
      \<longrightarrow> t = TOPIC_REFINE \<and>
          map fst p = [''chat_id'', ''agent_id'', ''failure_reason'', ''refinement_depth'']) \<and>
   (\<forall>t p.
      Publish t p \<in> set (snd (snd (evaluate_interaction ev st ajob llm)))
      \<longrightarrow> t = TOPIC_REFINE \<and>
          map fst p = [''chat_id'', ''agent_id'', ''failure_reason'', ''original_input'',
                       ''bad_response'', ''full_history'', ''priority''] \<and>
          dict_get p ''refinement_depth'' (JInt 0) = JInt 0) \<and>
   (\<forall>x st' effs t p.
      refine_agent ev st rjob llm' = (x, st', effs) \<and> Publish t p \<in> set effs
      \<longrightarrow> t = TOPIC_EVALUATE \<and> t \<noteq> TOPIC_REFINE)"
proof (intro conjI allI impI)
  fix x st' effs t p
  assume h: "run_evaluation ev st job replay performance compliance = (x, st', effs) \<and>
      Publish t p \<in> set effs"
  from h run_evaluation_publish [of ev st job replay performance compliance x st' effs t p]
  show "t = TOPIC_REFINE"
    and "map fst p = [''chat_id'', ''agent_id'', ''failure_reason'', ''refinement_depth'']"
    by auto
next
  fix t p
  assume h: "Publish t p \<in> set (snd (snd (evaluate_interaction ev st ajob llm)))"
  then have "Publish t p \<in> set (snd (snd (evaluate_try ev st ajob llm)))"
    by (simp add: evaluate_interaction_projections)
  from evaluate_try_publish [OF this]
  show "t = TOPIC_REFINE"
    and "map fst p = [''chat_id'', ''agent_id'', ''failure_reason'', ''original_input'',
                       ''bad_response'', ''full_history'', ''priority'']"
    and "dict_get p ''refinement_depth'' (JInt 0) = JInt 0"
    by (auto simp: dict_get_def)
next
  fix x st' effs t p
  assume h: "refine_agent ev st rjob llm' = (x, st', effs) \<and> Publish t p \<in> set effs"
  then show "t = TOPIC_EVALUATE" using refine_agent_publish by blast
  then show "t \<noteq> TOPIC_REFINE"
    by (simp add: TOPIC_EVALUATE_def TOPIC_REFINE_def)
qed

text \<open>
  C7, as stated, fails: the retry job that \<open>handle_failure\<close> publishes has no
  \<open>original_input\<close>, \<open>bad_response\<close> or \<open>full_history\<close>, and the job the Auditor
  publishes has no \<open>refinement_depth\<close>.
\<close>

theorem refine_job_fields_counterexample:
  "published_keys TOPIC_REFINE
     (snd (handle_failure (JStr ''c1'') (JStr ''acme_v2'') (JInt 0)
             ''Performance Check Failed: no email ask'' (JStr ''missing email ask''))) =
     [[''chat_id'', ''agent_id'', ''failure_reason'', ''refinement_depth'']] \<and>
   published_keys TOPIC_REFINE
     (snd (snd (evaluate_interaction ev0 st_acme audit_job (reply fail_text)))) =
     [[''chat_id'', ''agent_id'', ''failure_reason'', ''original_input'', ''bad_response'',
       ''full_history'', ''priority'']]"
  by code_simp

theorem refine_job_fields_witness:
  "Publish TOPIC_REFINE
     [(''chat_id'', JStr ''c1''), (''agent_id'', JStr ''acme_v2''),
      (''failure_reason'', JStr ''Performance Check Failed: no email ask''),
      (''refinement_depth'', JInt 1)]
     \<in> set (snd (snd (run_evaluation ev0 st_acme (evaluate_job 0)
                          (reply ''Sure.'') (reply fail_text) (reply pass_text)))) \<and>
   map fst [(''chat_id'', JStr ''c1''), (''agent_id'', JStr ''acme_v2''),
      (''failure_reason'', JStr ''Performance Check Failed: no email ask''),
      (''refinement_depth'', JInt 1)] =
     [''chat_id'', ''agent_id'', ''failure_reason'', ''refinement_depth''] \<and>
   published_keys TOPIC_REFINE
     (snd (snd (evaluate_interaction ev0 st_acme audit_job (reply fail_text)))) =
     [[''chat_id'', ''agent_id'', ''failure_reason'', ''original_input'', ''bad_response'',
       ''full_history'', ''priority'']] \<and>
   published_keys TOPIC_EVALUATE
     (snd (snd (refine_agent ev0 st_acme (refine_job ''acme'' 0) (reply tone_text)))) =
     [[''target_agent_id'', ''original_agent_id'', ''chat_id'', ''trigger_reason'',
       ''refinement_depth'', ''version'']]"
proof -
  let ?p = "[(''chat_id'', JStr ''c1''), (''agent_id'', JStr ''acme_v2''),
      (''failure_reason'', JStr ''Performance Check Failed: no email ask''),
      (''refinement_depth'', JInt 1)]"
  let ?run = "run_evaluation ev0 st_acme (evaluate_job 0)
                (reply ''Sure.'') (reply fail_text) (reply pass_text)"
  have pub: "Publish TOPIC_REFINE ?p \<in> set (snd (snd ?run))"
    by code_simp
  have run: "?run = (fst ?run, fst (snd ?run), snd (snd ?run))"
    by simp
  from refine_job_fields [of ev0 st_acme "evaluate_job 0" "reply ''Sure.''" "reply fail_text"
      "reply pass_text", THEN conjunct1, rule_format, of "fst ?run" "fst (snd ?run)"
      "snd (snd ?run)" TOPIC_REFINE ?p] run pub
  have keys: "map fst ?p = [''chat_id'', ''agent_id'', ''failure_reason'', ''refinement_depth'']"
    by blast
  have audited: "published_keys TOPIC_REFINE
     (snd (snd (evaluate_interaction ev0 st_acme audit_job (reply fail_text)))) =
     [[''chat_id'', ''agent_id'', ''failure_reason'', ''original_input'', ''bad_response'',
       ''full_history'', ''priority'']]"
    by code_simp
  have refined: "published_keys TOPIC_EVALUATE
     (snd (snd (refine_agent ev0 st_acme (refine_job ''acme'' 0) (reply tone_text)))) =
     [[''target_agent_id'', ''original_agent_id'', ''chat_id'', ''trigger_reason'',
       ''refinement_depth'', ''version'']]"
    by code_simp
  from pub keys audited refined show ?thesis
    by (intro conjI)
qed

section \<open>An incomplete judgment of the Auditor\<close>



section \<open>The estimated cost of a generation call\<close>

text \<open>
  Money is modelled with exact rationals; \<open>round(total_cost, 6)\<close> is rounding to the
  nearest millionth, ties to even.
\<close>




section \<open>Audit suppression at the Gateway\<close>



end
